theory Spec2Isabelle
  imports Main "HOL-Library.Word"
begin

section \<open>The contact map figure of figs.py\<close>

text \<open>
  \<^verbatim>\<open>figs.py\<close> holds one function, \<^verbatim>\<open>contact_plot_PF00014\<close>. It converts three
  lists of residue index pairs to numpy arrays, builds the mirrored and shifted
  coordinate lists \<^verbatim>\<open>x\<close> and \<^verbatim>\<open>y\<close>, and hands them to the plotting helpers
  \<^verbatim>\<open>mplot\<close> and \<^verbatim>\<open>matplotlib\<close>. Neither helper is part of the repository, so a
  call of one of them is modelled as an event: the function's result is the list of calls
  it made, in order, with the argument values of each call, together with the way the
  function ended and the object store it left behind.
\<close>

subsection \<open>Values\<close>

text \<open>
  numpy stores a list of Python integers that fit 64 bits as \<^verbatim>\<open>int64\<close>;
  \<^verbatim>\<open>+ 1\<close> on such an array wraps around silently. The elements are therefore
  64-bit words, read as signed numbers by \<open>sint\<close>.
\<close>

type_synonym np_int = "64 word"

type_synonym contact_pair = "np_int \<times> np_int"

text \<open>
  The arrays the function can build: a 0-dimensional value (one element of a vector), a
  vector, and a matrix given by its rows. Every matrix built here has at least one row.
\<close>

datatype ndarray = Scalar np_int | Vec "np_int list" | Mat "np_int list list"

datatype py_error = IndexError

text \<open>The module level colour constants.\<close>

definition C_CONTACT :: string where
  "C_CONTACT = ''#f0f0f0''"

definition C_TRUEPOS :: string where
  "C_TRUEPOS = ''#fd8d3c''"

definition C_FALSEPOS :: string where
  "C_FALSEPOS = ''#6baed6''"

text \<open>The dictionary \<^verbatim>\<open>pprops\<close> and its nested dictionary \<^verbatim>\<open>plotprops\<close>.\<close>

record plotprops =
  lw :: int
  marker_size :: int
  marker :: string
  clip_on :: bool

record pprops =
  colors :: "string list"
  xlim :: "int list"
  ylim :: "int list"
  xticks :: "int list"
  yticks :: "int list"
  xlabel :: string
  ylabel :: string
  plotprops :: plotprops
  theme :: string

text \<open>
  The calls to the plotting layer. The axes object \<^verbatim>\<open>ax\<close> is the one
  \<^verbatim>\<open>plt.subplot(111)\<close> returned and is handed on unchanged, so it is left out of the
  events. \<^verbatim>\<open>mp.def_labelprops\<close> is a constant of the helper library; its value is a
  parameter \<open>'lp\<close> of the model.
\<close>

datatype 'lp call =
    PltFigure int int
  | PltSubplot int
  | MpPlot string "ndarray list" "ndarray list" pprops
  | MpScatter "int list list" "int list list" pprops
  | AxText int int string string string 'lp
  | PltShow

datatype result = Returned | Raised py_error

subsection \<open>The object store\<close>

text \<open>
  Lists and arrays are mutable objects, reached through references. The store is the list
  of all objects allocated so far; a reference is an index into it. Allocation appends.
\<close>

datatype pyobj = PyList "contact_pair list" | NdArray ndarray

type_synonym addr = nat

type_synonym store = "pyobj list"

definition alloc :: "store \<Rightarrow> pyobj \<Rightarrow> store" where
  "alloc s ob = s @ [ob]"

text \<open>
  The argument of the function is a reference to a list of pairs. \<open>None\<close> stands for a
  call outside the model: a reference to no object, or to an object that is not a list of
  pairs.
\<close>

definition deref_list :: "store \<Rightarrow> addr \<Rightarrow> contact_pair list option" where
  "deref_list s a =
     (if a < length s then (case s ! a of PyList ps \<Rightarrow> Some ps | NdArray _ \<Rightarrow> None)
      else None)"

subsection \<open>The numpy operations used\<close>

text \<open>
  \<^verbatim>\<open>np.array(ps)\<close>: a list of \<open>n > 0\<close> pairs becomes an array of shape \<open>(n, 2)\<close>; the
  empty list becomes an array of shape \<open>(0,)\<close>, a vector without elements.
\<close>

definition np_array :: "contact_pair list \<Rightarrow> ndarray" where
  "np_array ps = (if ps = [] then Vec [] else Mat (map (\<lambda>(i, j). [i, j]) ps))"

text \<open>\<^verbatim>\<open>a.T\<close>: the transpose; a vector and a 0-dimensional value are their own transpose.\<close>

fun nd_T :: "ndarray \<Rightarrow> ndarray" where
  "nd_T (Scalar v) = Scalar v"
| "nd_T (Vec v) = Vec v"
| "nd_T (Mat rows) = Mat (transpose rows)"

text \<open>\<^verbatim>\<open>a[k]\<close> for a constant \<open>k \<ge> 0\<close>: numpy raises IndexError out of range.\<close>

fun getitem :: "ndarray \<Rightarrow> nat \<Rightarrow> py_error + ndarray" where
  "getitem (Scalar v) k = Inl IndexError"
| "getitem (Vec v) k = (if k < length v then Inr (Scalar (v ! k)) else Inl IndexError)"
| "getitem (Mat rows) k = (if k < length rows then Inr (Vec (rows ! k)) else Inl IndexError)"

text \<open>\<^verbatim>\<open>a + 1\<close>: a new array, every element one more (modulo \<open>2^64\<close>).\<close>

fun np_add1 :: "ndarray \<Rightarrow> ndarray" where
  "np_add1 (Scalar v) = Scalar (v + 1)"
| "np_add1 (Vec v) = Vec (map (\<lambda>e. e + 1) v)"
| "np_add1 (Mat rows) = Mat (map (map (\<lambda>e. e + 1)) rows)"

text \<open>
  \<^verbatim>\<open>np.array(other_contacts)\<close> on a reference: reads the list and allocates the new
  array; the list itself is not written.
\<close>

definition np_array_call :: "store \<Rightarrow> addr \<Rightarrow> (ndarray \<times> store) option" where
  "np_array_call s a =
     (case deref_list s a of
        None \<Rightarrow> None
      | Some ps \<Rightarrow> Some (np_array ps, alloc s (NdArray (np_array ps))))"

text \<open>
  One element \<^verbatim>\<open>a.T[k]+1\<close> of the list displays of lines 33 and 34. The transpose and
  the row are views without data of their own; the sum is a newly allocated array. When the
  index is out of range nothing is allocated.
\<close>

definition shifted_row :: "ndarray \<Rightarrow> nat \<Rightarrow> store \<Rightarrow> (py_error + ndarray) \<times> store" where
  "shifted_row a k s =
     (case getitem (nd_T a) k of
        Inl e \<Rightarrow> (Inl e, s)
      | Inr r \<Rightarrow> (Inr (np_add1 r), alloc s (NdArray (np_add1 r))))"

text \<open>
  A list display \<^verbatim>\<open>[e1, e2, ...]\<close> evaluates its elements from left to right and stops
  at the first exception; what was allocated before stays in the store.
\<close>

fun list_display :: "(ndarray \<times> nat) list \<Rightarrow> store \<Rightarrow> (py_error + ndarray list) \<times> store" where
  "list_display [] s = (Inr [], s)"
| "list_display ((a, k) # es) s =
     (case shifted_row a k s of
        (Inl e, s') \<Rightarrow> (Inl e, s')
      | (Inr v, s') \<Rightarrow>
          (case list_display es s' of
             (Inl e, s'') \<Rightarrow> (Inl e, s'')
           | (Inr vs, s'') \<Rightarrow> (Inr (v # vs), s'')))"

subsection \<open>contact_plot_PF00014\<close>

text \<open>The dictionary built at lines 19 to 27.\<close>

definition pprops_init :: pprops where
  "pprops_init =
     \<lparr> colors = [C_CONTACT, C_CONTACT, C_TRUEPOS, C_TRUEPOS, C_FALSEPOS, C_FALSEPOS],
       xlim = [1, 55],
       ylim = [1, 55],
       xticks = [0, 10, 20, 30, 40, 50, 55],
       yticks = [0, 10, 20, 30, 40, 50, 55],
       xlabel = ''PF00014 sites'',
       ylabel = ''PF00014 sites'',
       plotprops = \<lparr> lw = 0, marker_size = 25, marker = ''o'', clip_on = False \<rparr>,
       theme = ''boxed'' \<rparr>"

text \<open>
  Lines 38 to 42: the legend. The assignment to \<^verbatim>\<open>pprops['colors']\<close> replaces the
  entry of the local dictionary; the three legend points and their labels are literals.
\<close>

definition legend_pass :: "'lp \<Rightarrow> pprops \<Rightarrow> 'lp call list" where
  "legend_pass def_labelprops pp =
     [MpScatter [[56], [56], [56]] [[52], [48], [44]]
        (pp\<lparr>colors := [C_CONTACT, C_TRUEPOS, C_FALSEPOS]\<rparr>),
      AxText 57 52 ''Other contacts'' ''left'' ''center'' def_labelprops,
      AxText 57 48 ''True positives'' ''left'' ''center'' def_labelprops,
      AxText 57 44 ''False positives'' ''left'' ''center'' def_labelprops]"

text \<open>
  The function. Its arguments are references into the store \<open>s0\<close>. The result is the
  list of calls made to the plotting layer, how the function ended, and the final store.
  The calls to the plotting layer are taken to return normally and not to write to the
  store: they receive the newly built arrays and literals, never a reference to one of the
  argument lists.
\<close>

definition contact_plot_PF00014 ::
  "'lp \<Rightarrow> addr \<Rightarrow> addr \<Rightarrow> addr \<Rightarrow> store \<Rightarrow> ('lp call list \<times> result \<times> store) option" where
  "contact_plot_PF00014 def_labelprops other_contacts true_positives false_positives s0 =
     (let opened = [PltFigure 5 5, PltSubplot 111];
          pp = pprops_init
      in case np_array_call s0 other_contacts of
           None \<Rightarrow> None
         | Some (oc, s1) \<Rightarrow>
       (case np_array_call s1 true_positives of
           None \<Rightarrow> None
         | Some (tp, s2) \<Rightarrow>
       (case np_array_call s2 false_positives of
           None \<Rightarrow> None
         | Some (fp, s3) \<Rightarrow>
       (case list_display [(oc, 0), (oc, 1), (tp, 0), (tp, 1), (fp, 0), (fp, 1)] s3 of
           (Inl e, s4) \<Rightarrow> Some (opened, Raised e, s4)
         | (Inr x, s4) \<Rightarrow>
       (case list_display [(oc, 1), (oc, 0), (tp, 1), (tp, 0), (fp, 1), (fp, 0)] s4 of
           (Inl e, s5) \<Rightarrow> Some (opened, Raised e, s5)
         | (Inr y, s5) \<Rightarrow>
             Some (opened @ [MpPlot ''scatter'' x y pp] @ legend_pass def_labelprops pp
                     @ [PltShow],
                   Returned, s5))))))"

subsection \<open>Reading the plotted data\<close>

text \<open>
  Closed forms of what line 33 and line 34 compute from a non-empty list of pairs: the
  first and the second components, each one more.
\<close>

definition shift_fst :: "contact_pair list \<Rightarrow> ndarray" where
  "shift_fst ps = Vec (map (\<lambda>(i, j). i + 1) ps)"

definition shift_snd :: "contact_pair list \<Rightarrow> ndarray" where
  "shift_snd ps = Vec (map (\<lambda>(i, j). j + 1) ps)"

definition x_layers :: "contact_pair list \<Rightarrow> contact_pair list \<Rightarrow> contact_pair list \<Rightarrow> ndarray list" where
  "x_layers oc tp fp =
     [shift_fst oc, shift_snd oc, shift_fst tp, shift_snd tp, shift_fst fp, shift_snd fp]"

definition y_layers :: "contact_pair list \<Rightarrow> contact_pair list \<Rightarrow> contact_pair list \<Rightarrow> ndarray list" where
  "y_layers oc tp fp =
     [shift_snd oc, shift_fst oc, shift_snd tp, shift_fst tp, shift_snd fp, shift_fst fp]"

text \<open>
  A scatter layer draws one point for each position of its two coordinate vectors. The
  layers \<open>2k\<close> and \<open>2k+1\<close> belong to category \<open>k\<close> (0 the other contacts, 1 the true
  positives, 2 the false positives).
\<close>

fun layer_points :: "ndarray \<Rightarrow> ndarray \<Rightarrow> (np_int \<times> np_int) list" where
  "layer_points (Vec xs) (Vec ys) = zip xs ys"
| "layer_points _ _ = []"

definition category_points :: "ndarray list \<Rightarrow> ndarray list \<Rightarrow> nat \<Rightarrow> (np_int \<times> np_int) list" where
  "category_points x y k =
     layer_points (x ! (2 * k)) (y ! (2 * k)) @ layer_points (x ! (2 * k + 1)) (y ! (2 * k + 1))"

fun is_MpPlot :: "'lp call \<Rightarrow> bool" where
  "is_MpPlot (MpPlot t x y pp) = True"
| "is_MpPlot _ = False"

text \<open>The styling dictionary a plotting call received, when it received one.\<close>

fun call_pprops :: "'lp call \<Rightarrow> pprops option" where
  "call_pprops (MpPlot t x y pp) = Some pp"
| "call_pprops (MpScatter x y pp) = Some pp"
| "call_pprops _ = None"

section \<open>Properties\<close>

subsection \<open>The array operations on a list of pairs\<close>

lemma column_pairs:
  "map (\<lambda>r. map (\<lambda>(i, j). [i, j]) ps ! r ! 0) [0..<length ps] = map fst ps"
  "map (\<lambda>r. map (\<lambda>(i, j). [i, j]) ps ! r ! Suc 0) [0..<length ps] = map snd ps"
  by (auto intro!: nth_equalityI simp: case_prod_beta)

lemma transpose_pairs:
  assumes "ps \<noteq> []"
  shows "transpose (map (\<lambda>(i, j). [i, j]) ps) = [map fst ps, map snd ps]"
proof -
  have "transpose (map (\<lambda>(i, j). [i, j]) ps) =
          map (\<lambda>c. map (\<lambda>r. map (\<lambda>(i, j). [i, j]) ps ! r ! c)
            [0..<length (map (\<lambda>(i, j). [i, j]) ps)]) [0..<2]"
    by (rule transpose_rectangle) (use assms in \<open>auto simp: case_prod_beta\<close>)
  also have "[0..<2] = [0, Suc 0]"
    by (simp add: upt_rec)
  finally show ?thesis
    by (simp add: column_pairs)
qed

lemma nd_T_np_array:
  "ps \<noteq> [] \<Longrightarrow> nd_T (np_array ps) = Mat [map fst ps, map snd ps]"
  by (simp add: np_array_def transpose_pairs)

lemma shift_fst_alt: "shift_fst ps = np_add1 (Vec (map fst ps))"
  by (simp add: shift_fst_def case_prod_unfold comp_def)

lemma shift_snd_alt: "shift_snd ps = np_add1 (Vec (map snd ps))"
  by (simp add: shift_snd_def case_prod_unfold comp_def)

lemma shifted_row_pairs:
  assumes "ps \<noteq> []"
  shows "shifted_row (np_array ps) 0 s = (Inr (shift_fst ps), alloc s (NdArray (shift_fst ps)))"
    and "shifted_row (np_array ps) (Suc 0) s = (Inr (shift_snd ps), alloc s (NdArray (shift_snd ps)))"
  unfolding shifted_row_def nd_T_np_array [OF assms] shift_fst_alt shift_snd_alt
  by simp_all

lemma shifted_row_empty: "shifted_row (np_array []) k s = (Inl IndexError, s)"
  by (simp add: shifted_row_def np_array_def)

lemma deref_list_alloc: "deref_list s a = Some ps \<Longrightarrow> deref_list (alloc s ob) a = Some ps"
  by (auto simp: deref_list_def alloc_def nth_append split: if_splits)

lemma np_array_call_Some:
  "deref_list s a = Some ps \<Longrightarrow>
   np_array_call s a = Some (np_array ps, alloc s (NdArray (np_array ps)))"
  by (simp add: np_array_call_def)

text \<open>
  Within the signed range the wrapping \<open>+ 1\<close> is the integer successor; residue indices
  (0 to 54) are far inside it.
\<close>

lemma sint_add1:
  assumes "sint (i :: np_int) < 2 ^ 63 - 1"
  shows "sint (i + 1) = sint i + 1"
proof -
  have "sint (i + 1) = signed_take_bit 63 (sint i + 1)"
    by (simp add: sint_word_ariths)
  moreover have "- (2 ^ 63) \<le> sint i"
    using sint_ge [of i] by simp
  ultimately show ?thesis
    using assms by (simp add: signed_take_bit_int_eq_self)
qed

subsection \<open>The two ways a call ends\<close>

text \<open>When no list is empty the call returns, after these calls and allocations.\<close>

lemma run_returns:
  assumes "deref_list s a = Some oc" "deref_list s b = Some tp" "deref_list s c = Some fp"
    and "oc \<noteq> []" "tp \<noteq> []" "fp \<noteq> []"
  shows "contact_plot_PF00014 lp a b c s =
     Some ([PltFigure 5 5, PltSubplot 111, MpPlot ''scatter'' (x_layers oc tp fp) (y_layers oc tp fp) pprops_init]
             @ legend_pass lp pprops_init @ [PltShow],
           Returned,
           s @ [NdArray (np_array oc), NdArray (np_array tp), NdArray (np_array fp)]
             @ map NdArray (x_layers oc tp fp) @ map NdArray (y_layers oc tp fp))"
proof -
  let ?s1 = "alloc s (NdArray (np_array oc))"
  let ?s2 = "alloc ?s1 (NdArray (np_array tp))"
  let ?s3 = "alloc ?s2 (NdArray (np_array fp))"
  have 1: "np_array_call s a = Some (np_array oc, ?s1)"
    using assms(1) by (rule np_array_call_Some)
  have 2: "np_array_call ?s1 b = Some (np_array tp, ?s2)"
    using assms(2) by (intro np_array_call_Some deref_list_alloc)
  have 3: "np_array_call ?s2 c = Some (np_array fp, ?s3)"
    using assms(3) by (intro np_array_call_Some deref_list_alloc)
  have x: "list_display [(np_array oc, 0), (np_array oc, 1), (np_array tp, 0), (np_array tp, 1),
                          (np_array fp, 0), (np_array fp, 1)] t =
             (Inr (x_layers oc tp fp), t @ map NdArray (x_layers oc tp fp))" for t
    using assms(4-6) by (simp add: shifted_row_pairs x_layers_def alloc_def)
  have y: "list_display [(np_array oc, 1), (np_array oc, 0), (np_array tp, 1), (np_array tp, 0),
                          (np_array fp, 1), (np_array fp, 0)] t =
             (Inr (y_layers oc tp fp), t @ map NdArray (y_layers oc tp fp))" for t
    using assms(4-6) by (simp add: shifted_row_pairs y_layers_def alloc_def)
  show ?thesis
    unfolding contact_plot_PF00014_def Let_def 1 2 3 option.case prod.case x y sum.case
    by (simp add: alloc_def)
qed

lemma list_display_extends: "\<exists>ext. snd (list_display es s) = s @ ext"
proof (induction es arbitrary: s)
  case Nil
  show ?case by simp
next
  case (Cons e es)
  obtain a k where e: "e = (a, k)" by (cases e)
  show ?case
  proof (cases "getitem (nd_T a) k")
    case (Inl err)
    then show ?thesis by (simp add: e shifted_row_def)
  next
    case (Inr r)
    obtain ext where "snd (list_display es (alloc s (NdArray (np_add1 r)))) =
        alloc s (NdArray (np_add1 r)) @ ext"
      using Cons.IH by blast
    then show ?thesis
      by (cases "list_display es (alloc s (NdArray (np_add1 r)))")
        (auto simp: e shifted_row_def Inr alloc_def split: sum.splits)
  qed
qed

lemma list_display_raises:
  assumes "oc = [] \<or> tp = [] \<or> fp = []"
  shows "fst (list_display [(np_array oc, 0), (np_array oc, 1), (np_array tp, 0), (np_array tp, 1),
                          (np_array fp, 0), (np_array fp, 1)] t) = Inl IndexError"
proof (cases "oc = []")
  case True
  then show ?thesis by (simp add: shifted_row_empty)
next
  case oc: False
  show ?thesis
  proof (cases "tp = []")
    case True
    then show ?thesis using oc by (simp add: shifted_row_empty shifted_row_pairs)
  next
    case tp: False
    with oc assms have "fp = []" by simp
    then show ?thesis using oc tp by (simp add: shifted_row_empty shifted_row_pairs)
  qed
qed

lemma run_raises:
  assumes "deref_list s a = Some oc" "deref_list s b = Some tp" "deref_list s c = Some fp"
    and "oc = [] \<or> tp = [] \<or> fp = []"
  shows "\<exists>s'. contact_plot_PF00014 lp a b c s =
           Some ([PltFigure 5 5, PltSubplot 111], Raised IndexError, s')"
proof -
  let ?s1 = "alloc s (NdArray (np_array oc))"
  let ?s2 = "alloc ?s1 (NdArray (np_array tp))"
  let ?s3 = "alloc ?s2 (NdArray (np_array fp))"
  let ?d = "list_display [(np_array oc, 0), (np_array oc, 1), (np_array tp, 0), (np_array tp, 1),
                          (np_array fp, 0), (np_array fp, 1)] ?s3"
  have 1: "np_array_call s a = Some (np_array oc, ?s1)"
    using assms(1) by (rule np_array_call_Some)
  have 2: "np_array_call ?s1 b = Some (np_array tp, ?s2)"
    using assms(2) by (intro np_array_call_Some deref_list_alloc)
  have 3: "np_array_call ?s2 c = Some (np_array fp, ?s3)"
    using assms(3) by (intro np_array_call_Some deref_list_alloc)
  have "fst ?d = Inl IndexError"
    using assms(4) by (rule list_display_raises)
  then have d: "?d = (Inl IndexError, snd ?d)"
    by (metis prod.collapse)
  show ?thesis
    unfolding contact_plot_PF00014_def Let_def 1 2 3 option.case prod.case
    by (subst d) simp
qed

lemma run_frame:
  assumes "contact_plot_PF00014 lp a b c s = Some (tr, r, s')"
  shows "take (length s) s' = s"
proof -
  from assms obtain oc s1 tp s2 fp s3 where
    1: "np_array_call s a = Some (oc, s1)" and
    2: "np_array_call s1 b = Some (tp, s2)" and
    3: "np_array_call s2 c = Some (fp, s3)"
    by (auto simp: contact_plot_PF00014_def Let_def split: option.splits)
  let ?dx = "list_display [(oc, 0), (oc, 1), (tp, 0), (tp, 1), (fp, 0), (fp, 1)] s3"
  let ?dy = "list_display [(oc, 1), (oc, 0), (tp, 1), (tp, 0), (fp, 1), (fp, 0)] (snd ?dx)"
  obtain e3 where s3: "s3 = s @ e3"
    using 1 2 3 by (auto simp: np_array_call_def alloc_def split: option.splits)
  obtain e4 where s4: "snd ?dx = s3 @ e4"
    using list_display_extends by blast
  obtain e5 where s5: "snd ?dy = snd ?dx @ e5"
    using list_display_extends by blast
  have "s' = snd ?dx \<or> s' = snd ?dy"
    using assms unfolding contact_plot_PF00014_def Let_def 1 2 3 option.case prod.case
    by (auto split: prod.splits sum.splits simp del: list_display.simps)
  then show ?thesis
    using s3 s4 s5 by auto
qed

lemma run_cases:
  assumes "contact_plot_PF00014 lp a b c s = Some (tr, r, s')"
  obtains oc tp fp where
    "deref_list s a = Some oc" "deref_list s b = Some tp" "deref_list s c = Some fp"
proof -
  from assms obtain oc s1 tp s2 fp s3 where
    1: "np_array_call s a = Some (oc, s1)" and
    2: "np_array_call s1 b = Some (tp, s2)" and
    3: "np_array_call s2 c = Some (fp, s3)"
    by (auto simp: contact_plot_PF00014_def Let_def split: option.splits)
  from 1 obtain l1 where l1: "deref_list s a = Some l1" and s1: "s1 = alloc s (NdArray (np_array l1))"
    by (auto simp: np_array_call_def split: option.splits)
  from 2 obtain l2 where l2: "deref_list s1 b = Some l2" and s2: "s2 = alloc s1 (NdArray (np_array l2))"
    by (auto simp: np_array_call_def split: option.splits)
  from 3 obtain l3 where l3: "deref_list s2 c = Some l3"
    by (auto simp: np_array_call_def split: option.splits)
  have older: "deref_list t p = Some ps" if "deref_list (alloc t (NdArray v)) p = Some ps" for t p ps v
    using that by (auto simp: deref_list_def alloc_def nth_append split: if_splits pyobj.splits)
  have "deref_list s b = Some l2"
    using l2 unfolding s1 by (rule older)
  moreover have "deref_list s c = Some l3"
    using l3 unfolding s2 s1 by (rule older [OF older])
  ultimately show thesis
    using that l1 by blast
qed

lemma run_trace:
  assumes "contact_plot_PF00014 lp a b c s = Some (tr, r, s')"
    and "deref_list s a = Some oc" "deref_list s b = Some tp" "deref_list s c = Some fp"
  shows "(tr = [PltFigure 5 5, PltSubplot 111] \<and> r = Raised IndexError \<and>
            (oc = [] \<or> tp = [] \<or> fp = [])) \<or>
         (tr = [PltFigure 5 5, PltSubplot 111,
                MpPlot ''scatter'' (x_layers oc tp fp) (y_layers oc tp fp) pprops_init]
                @ legend_pass lp pprops_init @ [PltShow] \<and> r = Returned \<and>
            oc \<noteq> [] \<and> tp \<noteq> [] \<and> fp \<noteq> [])"
proof (cases "oc = [] \<or> tp = [] \<or> fp = []")
  case True
  then show ?thesis
    using run_raises [OF assms(2-4) True, of lp] assms(1) by auto
next
  case False
  then show ?thesis
    using run_returns [OF assms(2-4), of lp] assms(1) by auto
qed

text \<open>A call that returns, evaluated.\<close>

lemma example_run:
  "contact_plot_PF00014 lp 0 1 2 [PyList [(0, 1)], PyList [(5, 5)], PyList [(2, 3)]] =
     Some ([PltFigure 5 5, PltSubplot 111,
            MpPlot ''scatter'' [Vec [1], Vec [2], Vec [6], Vec [6], Vec [3], Vec [4]]
              [Vec [2], Vec [1], Vec [6], Vec [6], Vec [4], Vec [3]] pprops_init,
            MpScatter [[56], [56], [56]] [[52], [48], [44]]
              (pprops_init\<lparr>colors := [C_CONTACT, C_TRUEPOS, C_FALSEPOS]\<rparr>),
            AxText 57 52 ''Other contacts'' ''left'' ''center'' lp,
            AxText 57 48 ''True positives'' ''left'' ''center'' lp,
            AxText 57 44 ''False positives'' ''left'' ''center'' lp,
            PltShow],
           Returned,
           [PyList [(0, 1)], PyList [(5, 5)], PyList [(2, 3)],
            NdArray (Mat [[0, 1]]), NdArray (Mat [[5, 5]]), NdArray (Mat [[2, 3]]),
            NdArray (Vec [1]), NdArray (Vec [2]), NdArray (Vec [6]),
            NdArray (Vec [6]), NdArray (Vec [3]), NdArray (Vec [4]),
            NdArray (Vec [2]), NdArray (Vec [1]), NdArray (Vec [6]),
            NdArray (Vec [6]), NdArray (Vec [4]), NdArray (Vec [3])])"
  by (simp add: contact_plot_PF00014_def np_array_call_def deref_list_def np_array_def
      alloc_def shifted_row_def legend_pass_def)

subsection \<open>Display points\<close>

lemma layer_points_shift:
  "layer_points (shift_fst ps) (shift_snd ps) = map (\<lambda>(i, j). (i + 1, j + 1)) ps"
  "layer_points (shift_snd ps) (shift_fst ps) = map (\<lambda>(i, j). (j + 1, i + 1)) ps"
  by (induction ps) (auto simp: shift_fst_def shift_snd_def)

lemma category_points_layers:
  "category_points (x_layers oc tp fp) (y_layers oc tp fp) 0 =
     map (\<lambda>(i, j). (i + 1, j + 1)) oc @ map (\<lambda>(i, j). (j + 1, i + 1)) oc"
  "category_points (x_layers oc tp fp) (y_layers oc tp fp) (Suc 0) =
     map (\<lambda>(i, j). (i + 1, j + 1)) tp @ map (\<lambda>(i, j). (j + 1, i + 1)) tp"
  "category_points (x_layers oc tp fp) (y_layers oc tp fp) 2 =
     map (\<lambda>(i, j). (i + 1, j + 1)) fp @ map (\<lambda>(i, j). (j + 1, i + 1)) fp"
  by (simp_all add: category_points_def x_layers_def y_layers_def layer_points_shift)

lemma count_list_map_unique:
  assumes "\<And>p. f p = v \<longleftrightarrow> p = q"
  shows "count_list (map f ps) v = count_list ps q"
  by (induction ps) (simp_all add: assms)

lemma count_mirrored_self_pair:
  "count_list (map (\<lambda>(a, b). (a + 1, b + 1)) ps) (i + 1, i + 1) = count_list ps (i, i)"
  "count_list (map (\<lambda>(a, b). (b + 1, a + 1)) ps) (i + 1, i + 1) = count_list ps (i, i)"
  for i :: np_int
  by (rule count_list_map_unique; auto)+

lemma filter_MpPlot_legend: "filter is_MpPlot (legend_pass lp pp) = []"
  by (simp add: legend_pass_def)

subsection \<open>Empty category lists\<close>

text \<open>
  C1. The specification asks that a call in which some category list is empty does not
  crash and draws an empty scatter layer for that category, and that a call with three
  empty lists hands empty coordinate arrays to every layer and still draws the legend.
  The code does not: \<^verbatim>\<open>np.array([])\<close> has shape \<open>(0,)\<close>, its transpose is the same
  empty vector, and \<^verbatim>\<open>.T[0]\<close> in line 33 raises IndexError. With three empty lists the
  figure and the axes are created, the three arrays are allocated, and the call ends in
  IndexError before \<^verbatim>\<open>mp.plot\<close>, the legend or \<^verbatim>\<open>plt.show\<close> is reached.
\<close>

theorem all_lists_empty_raises_IndexError:
  "contact_plot_PF00014 () 0 1 2 [PyList [], PyList [], PyList []] =
     Some ([PltFigure 5 5, PltSubplot 111], Raised IndexError,
           [PyList [], PyList [], PyList [], NdArray (Vec []), NdArray (Vec []), NdArray (Vec [])])"
  by (simp add: contact_plot_PF00014_def np_array_call_def deref_list_def np_array_def
      alloc_def shifted_row_def)

text \<open>
  C3. The scenario \<^verbatim>\<open>other_contacts=[(0,1)], true_positives=[], false_positives=[(2,3)]\<close>
  is specified to draw the background points (1,2), (2,1), no true positive and the false
  positive points (3,4), (4,3), with the legend. In the code the first two elements of
  line 33 are built (the vectors [1] and [2]), the third, \<^verbatim>\<open>tp.T[0]+1\<close>, raises
  IndexError, and nothing is drawn.
\<close>

theorem scenario_empty_true_positives_raises_IndexError:
  "contact_plot_PF00014 () 0 1 2 [PyList [(0, 1)], PyList [], PyList [(2, 3)]] =
     Some ([PltFigure 5 5, PltSubplot 111], Raised IndexError,
           [PyList [(0, 1)], PyList [], PyList [(2, 3)],
            NdArray (Mat [[0, 1]]), NdArray (Vec []), NdArray (Mat [[2, 3]]),
            NdArray (Vec [1]), NdArray (Vec [2])])"
  by (simp add: contact_plot_PF00014_def np_array_call_def deref_list_def np_array_def
      alloc_def shifted_row_def)

text \<open>
  C2. The specification asks that every pair \<open>(i, j)\<close> of every category list is drawn as
  the two display points \<open>(i+1, j+1)\<close> and \<open>(j+1, i+1)\<close>, so that a non-empty category
  has twice as many display points as pairs. The code does so only when no other list is
  empty (lemma \<open>mirrored_points_when_nonempty\<close> below). With
  \<^verbatim>\<open>other_contacts=[(0,1),(2,5)], true_positives=[(3,4)], false_positives=[]\<close> the
  four vectors of the first two categories are built, \<^verbatim>\<open>fp.T[0]\<close> raises IndexError, and
  \<^verbatim>\<open>mp.plot\<close> is not called: the two non-empty categories get no display point.
\<close>

theorem mirroring_lost_when_false_positives_empty:
  "contact_plot_PF00014 () 0 1 2 [PyList [(0, 1), (2, 5)], PyList [(3, 4)], PyList []] =
     Some ([PltFigure 5 5, PltSubplot 111], Raised IndexError,
           [PyList [(0, 1), (2, 5)], PyList [(3, 4)], PyList [],
            NdArray (Mat [[0, 1], [2, 5]]), NdArray (Mat [[3, 4]]), NdArray (Vec []),
            NdArray (Vec [1, 3]), NdArray (Vec [2, 6]), NdArray (Vec [4]), NdArray (Vec [5])])"
  by (simp add: contact_plot_PF00014_def np_array_call_def deref_list_def np_array_def
      alloc_def shifted_row_def)

text \<open>
  C6. The specification asks that a self-pair \<open>(i, i)\<close> of any category list is drawn
  twice at \<open>(i+1, i+1)\<close>. The code does so only when no list is empty (lemma
  \<open>self_pair_drawn_twice_when_nonempty\<close> below). With
  \<^verbatim>\<open>other_contacts=[(4,4)], true_positives=[], false_positives=[(2,3)]\<close> the two
  vectors [5] and [5] of the self-pair are built, \<^verbatim>\<open>tp.T[0]\<close> raises IndexError, and
  the point (5, 5) is never handed to the plotting layer.
\<close>

theorem self_pair_lost_when_true_positives_empty:
  "contact_plot_PF00014 () 0 1 2 [PyList [(4, 4)], PyList [], PyList [(2, 3)]] =
     Some ([PltFigure 5 5, PltSubplot 111], Raised IndexError,
           [PyList [(4, 4)], PyList [], PyList [(2, 3)],
            NdArray (Mat [[4, 4]]), NdArray (Vec []), NdArray (Mat [[2, 3]]),
            NdArray (Vec [5]), NdArray (Vec [5])])"
  by (simp add: contact_plot_PF00014_def np_array_call_def deref_list_def np_array_def
      alloc_def shifted_row_def)

text \<open>
  C4. The specification asks that the legend is drawn for every input: three points at
  (56, 52), (56, 48), (56, 44) in the three category colours, with their labels. The code
  draws exactly this legend in every call that returns (lemma
  \<open>legend_fixed_when_returned\<close> below), but with
  \<^verbatim>\<open>other_contacts=[], true_positives=[(0,1)], false_positives=[(2,3)]\<close> the first
  element of line 33, \<^verbatim>\<open>oc.T[0]\<close>, raises IndexError: the legend pass of lines 38 to 42
  is not reached, and no \<^verbatim>\<open>mp.scatter\<close> or \<^verbatim>\<open>ax.text\<close> call is made.
\<close>

theorem legend_lost_when_other_contacts_empty:
  "contact_plot_PF00014 () 0 1 2 [PyList [], PyList [(0, 1)], PyList [(2, 3)]] =
     Some ([PltFigure 5 5, PltSubplot 111], Raised IndexError,
           [PyList [], PyList [(0, 1)], PyList [(2, 3)],
            NdArray (Vec []), NdArray (Mat [[0, 1]]), NdArray (Mat [[2, 3]])])"
  by (simp add: contact_plot_PF00014_def np_array_call_def deref_list_def np_array_def
      alloc_def shifted_row_def)

subsection \<open>Mirroring\<close>

text \<open>
  When the three category lists are non-empty the call returns, and its one call of
  \<^verbatim>\<open>mp.plot\<close> receives, for every category, the points \<open>(i+1, j+1)\<close> of its pairs
  \<open>(i, j)\<close> in the first layer of the category and the points \<open>(j+1, i+1)\<close> in the second
  layer: two display points for each pair. The addition is the one of the \<^verbatim>\<open>int64\<close>
  arrays; below \<open>2^63 - 1\<close> it is the integer successor (lemma \<open>sint_add1\<close>).
\<close>

lemma mirrored_points_when_nonempty:
  assumes "deref_list s a = Some oc" "deref_list s b = Some tp" "deref_list s c = Some fp"
    and "oc \<noteq> []" "tp \<noteq> []" "fp \<noteq> []"
  shows "\<exists>x y s'.
           contact_plot_PF00014 lp a b c s =
             Some ([PltFigure 5 5, PltSubplot 111, MpPlot ''scatter'' x y pprops_init]
                     @ legend_pass lp pprops_init @ [PltShow], Returned, s') \<and>
           category_points x y 0 =
             map (\<lambda>(i, j). (i + 1, j + 1)) oc @ map (\<lambda>(i, j). (j + 1, i + 1)) oc \<and>
           category_points x y 1 =
             map (\<lambda>(i, j). (i + 1, j + 1)) tp @ map (\<lambda>(i, j). (j + 1, i + 1)) tp \<and>
           category_points x y 2 =
             map (\<lambda>(i, j). (i + 1, j + 1)) fp @ map (\<lambda>(i, j). (j + 1, i + 1)) fp \<and>
           length (category_points x y 0) = 2 * length oc \<and>
           length (category_points x y 1) = 2 * length tp \<and>
           length (category_points x y 2) = 2 * length fp"
proof -
  let ?x = "x_layers oc tp fp" and ?y = "y_layers oc tp fp"
  have "contact_plot_PF00014 lp a b c s =
      Some ([PltFigure 5 5, PltSubplot 111, MpPlot ''scatter'' ?x ?y pprops_init]
              @ legend_pass lp pprops_init @ [PltShow], Returned,
            s @ [NdArray (np_array oc), NdArray (np_array tp), NdArray (np_array fp)]
              @ map NdArray ?x @ map NdArray ?y)"
    using assms by (rule run_returns)
  moreover have "category_points ?x ?y 0 =
      map (\<lambda>(i, j). (i + 1, j + 1)) oc @ map (\<lambda>(i, j). (j + 1, i + 1)) oc"
    by (rule category_points_layers)
  moreover have "category_points ?x ?y 1 =
      map (\<lambda>(i, j). (i + 1, j + 1)) tp @ map (\<lambda>(i, j). (j + 1, i + 1)) tp"
    using category_points_layers(2) by simp
  moreover have "category_points ?x ?y 2 =
      map (\<lambda>(i, j). (i + 1, j + 1)) fp @ map (\<lambda>(i, j). (j + 1, i + 1)) fp"
    by (rule category_points_layers)
  ultimately show ?thesis
    by (intro exI [of _ ?x] exI [of _ ?y] exI conjI) (assumption, simp_all)
qed

text \<open>
  When the three category lists are non-empty, a self-pair \<open>(i, i)\<close> of category \<open>k\<close> is
  drawn in both layers of the category, both times at \<open>(i+1, i+1)\<close>: the point occurs
  among the display points of the category exactly twice as often as the pair occurs in
  the list.
\<close>

lemma self_pair_drawn_twice_when_nonempty:
  assumes "deref_list s a = Some oc" "deref_list s b = Some tp" "deref_list s c = Some fp"
    and "oc \<noteq> []" "tp \<noteq> []" "fp \<noteq> []"
    and "k < 3" "(i, i) \<in> set ([oc, tp, fp] ! k)"
  shows "\<exists>x y s'.
           contact_plot_PF00014 lp a b c s =
             Some ([PltFigure 5 5, PltSubplot 111, MpPlot ''scatter'' x y pprops_init]
                     @ legend_pass lp pprops_init @ [PltShow], Returned, s') \<and>
           (i + 1, i + 1) \<in> set (layer_points (x ! (2 * k)) (y ! (2 * k))) \<and>
           (i + 1, i + 1) \<in> set (layer_points (x ! (2 * k + 1)) (y ! (2 * k + 1))) \<and>
           count_list (category_points x y k) (i + 1, i + 1) = 2 * count_list ([oc, tp, fp] ! k) (i, i)"
proof -
  let ?x = "x_layers oc tp fp" and ?y = "y_layers oc tp fp"
  let ?ps = "[oc, tp, fp] ! k"
  have run: "contact_plot_PF00014 lp a b c s =
      Some ([PltFigure 5 5, PltSubplot 111, MpPlot ''scatter'' ?x ?y pprops_init]
              @ legend_pass lp pprops_init @ [PltShow], Returned,
            s @ [NdArray (np_array oc), NdArray (np_array tp), NdArray (np_array fp)]
              @ map NdArray ?x @ map NdArray ?y)"
    using assms(1-6) by (rule run_returns)
  from \<open>k < 3\<close> have k: "k = 0 \<or> k = 1 \<or> k = 2"
    by auto
  have fwd: "layer_points (?x ! (2 * k)) (?y ! (2 * k)) = map (\<lambda>(a, b). (a + 1, b + 1)) ?ps"
    using k by (auto simp: x_layers_def y_layers_def layer_points_shift)
  have bwd: "layer_points (?x ! (2 * k + 1)) (?y ! (2 * k + 1)) = map (\<lambda>(a, b). (b + 1, a + 1)) ?ps"
    using k by (auto simp: x_layers_def y_layers_def layer_points_shift)
  have "(i + 1, i + 1) \<in> set (layer_points (?x ! (2 * k)) (?y ! (2 * k)))"
    unfolding fwd using assms(8) by force
  moreover have "(i + 1, i + 1) \<in> set (layer_points (?x ! (2 * k + 1)) (?y ! (2 * k + 1)))"
    unfolding bwd using assms(8) by force
  moreover have "count_list (category_points ?x ?y k) (i + 1, i + 1) = 2 * count_list ?ps (i, i)"
    unfolding category_points_def fwd bwd by (simp add: count_mirrored_self_pair)
  ultimately show ?thesis
    using run by blast
qed

subsection \<open>The main scatter call\<close>

text \<open>
  C7. The call makes exactly one call of \<^verbatim>\<open>mp.plot\<close>. Its layers are those of the other
  contacts, then those of the true positives, then those of the false positives; every
  layer has one coordinate for every pair of its list, in the order of the list, so equal
  pairs and coinciding points are all passed on.
\<close>

theorem layers_in_category_order:
  assumes "deref_list s a = Some oc" "deref_list s b = Some tp" "deref_list s c = Some fp"
    and "oc \<noteq> []" "tp \<noteq> []" "fp \<noteq> []"
  shows "\<exists>tr s'.
           contact_plot_PF00014 lp a b c s = Some (tr, Returned, s') \<and>
           filter is_MpPlot tr =
             [MpPlot ''scatter''
                [Vec (map (\<lambda>(i, j). i + 1) oc), Vec (map (\<lambda>(i, j). j + 1) oc),
                 Vec (map (\<lambda>(i, j). i + 1) tp), Vec (map (\<lambda>(i, j). j + 1) tp),
                 Vec (map (\<lambda>(i, j). i + 1) fp), Vec (map (\<lambda>(i, j). j + 1) fp)]
                [Vec (map (\<lambda>(i, j). j + 1) oc), Vec (map (\<lambda>(i, j). i + 1) oc),
                 Vec (map (\<lambda>(i, j). j + 1) tp), Vec (map (\<lambda>(i, j). i + 1) tp),
                 Vec (map (\<lambda>(i, j). j + 1) fp), Vec (map (\<lambda>(i, j). i + 1) fp)]
                pprops_init]"
  using run_returns [OF assms, of lp]
  by (simp add: filter_MpPlot_legend x_layers_def y_layers_def shift_fst_def shift_snd_def)

theorem layers_in_category_order_witness:
  "deref_list [PyList [(0, 1), (0, 1)], PyList [(0, 1)], PyList [(1, 0)]] 0 = Some [(0, 1), (0, 1)] \<and>
   deref_list [PyList [(0, 1), (0, 1)], PyList [(0, 1)], PyList [(1, 0)]] 1 = Some [(0, 1)] \<and>
   deref_list [PyList [(0, 1), (0, 1)], PyList [(0, 1)], PyList [(1, 0)]] 2 = Some [(1, 0)] \<and>
   (\<exists>tr s'.
      contact_plot_PF00014 () 0 1 2 [PyList [(0, 1), (0, 1)], PyList [(0, 1)], PyList [(1, 0)]] =
        Some (tr, Returned, s') \<and>
      filter is_MpPlot tr =
        [MpPlot ''scatter''
           [Vec [1, 1], Vec [2, 2], Vec [1], Vec [2], Vec [2], Vec [1]]
           [Vec [2, 2], Vec [1, 1], Vec [2], Vec [1], Vec [1], Vec [2]]
           pprops_init])"
proof -
  let ?s = "[PyList [(0, 1), (0, 1)], PyList [(0, 1)], PyList [(1, 0)]]"
  have h: "deref_list ?s 0 = Some [(0, 1), (0, 1)]" "deref_list ?s 1 = Some [(0, 1)]"
    "deref_list ?s 2 = Some [(1, 0)]"
    by (simp_all add: deref_list_def)
  have n: "[(0, 1), (0, 1) :: contact_pair] \<noteq> []" "[(0, 1) :: contact_pair] \<noteq> []"
    "[(1, 0) :: contact_pair] \<noteq> []"
    by simp_all
  show ?thesis
    using h layers_in_category_order [OF h n, of "()"] by simp
qed

text \<open>
  C8. Whenever \<^verbatim>\<open>mp.plot\<close> is called it receives six coordinate vectors in \<open>x\<close>, six in
  \<open>y\<close> and six colours. For each category \<open>k\<close> the vectors \<open>2k\<close> and \<open>2k+1\<close> are the two
  mirrored halves of that category, and the colours \<open>2k\<close> and \<open>2k+1\<close> are both the colour
  of that category.
\<close>

theorem six_layers_six_colors:
  assumes "contact_plot_PF00014 lp a b c s = Some (tr, r, s')"
    and "deref_list s a = Some oc" "deref_list s b = Some tp" "deref_list s c = Some fp"
    and "MpPlot t x y pp \<in> set tr"
  shows "length x = 6 \<and> length y = 6 \<and> length (colors pp) = 6 \<and>
         (\<forall>k<3. x ! (2 * k) = shift_fst ([oc, tp, fp] ! k) \<and>
                 x ! (2 * k + 1) = shift_snd ([oc, tp, fp] ! k) \<and>
                 y ! (2 * k) = shift_snd ([oc, tp, fp] ! k) \<and>
                 y ! (2 * k + 1) = shift_fst ([oc, tp, fp] ! k) \<and>
                 colors pp ! (2 * k) = [C_CONTACT, C_TRUEPOS, C_FALSEPOS] ! k \<and>
                 colors pp ! (2 * k + 1) = [C_CONTACT, C_TRUEPOS, C_FALSEPOS] ! k)"
proof -
  have "MpPlot t x y pp \<notin> set [PltFigure 5 5, PltSubplot 111 :: 'a call]"
    by simp
  with run_trace [OF assms(1-4)] assms(5)
  have "MpPlot t x y pp \<in> set ([PltFigure 5 5, PltSubplot 111,
          MpPlot ''scatter'' (x_layers oc tp fp) (y_layers oc tp fp) pprops_init]
          @ legend_pass lp pprops_init @ [PltShow])"
    by auto
  then have eq: "x = x_layers oc tp fp" "y = y_layers oc tp fp" "pp = pprops_init"
    by (auto simp: legend_pass_def)
  have "x_layers oc tp fp ! (2 * k) = shift_fst ([oc, tp, fp] ! k) \<and>
        x_layers oc tp fp ! (2 * k + 1) = shift_snd ([oc, tp, fp] ! k) \<and>
        y_layers oc tp fp ! (2 * k) = shift_snd ([oc, tp, fp] ! k) \<and>
        y_layers oc tp fp ! (2 * k + 1) = shift_fst ([oc, tp, fp] ! k) \<and>
        colors pprops_init ! (2 * k) = [C_CONTACT, C_TRUEPOS, C_FALSEPOS] ! k \<and>
        colors pprops_init ! (2 * k + 1) = [C_CONTACT, C_TRUEPOS, C_FALSEPOS] ! k"
    if "k < 3" for k :: nat
  proof -
    from that consider "k = 0" | "k = 1" | "k = 2"
      by linarith
    then show ?thesis
      by cases (simp_all add: x_layers_def y_layers_def pprops_init_def)
  qed
  then show ?thesis
    unfolding eq by (simp add: x_layers_def y_layers_def pprops_init_def)
qed

theorem six_layers_six_colors_witness:
  "contact_plot_PF00014 () 0 1 2 [PyList [(0, 1)], PyList [(5, 5)], PyList [(2, 3)]] =
     Some ([PltFigure 5 5, PltSubplot 111,
            MpPlot ''scatter'' [Vec [1], Vec [2], Vec [6], Vec [6], Vec [3], Vec [4]]
              [Vec [2], Vec [1], Vec [6], Vec [6], Vec [4], Vec [3]] pprops_init]
             @ legend_pass () pprops_init @ [PltShow], Returned,
           [PyList [(0, 1)], PyList [(5, 5)], PyList [(2, 3)],
            NdArray (Mat [[0, 1]]), NdArray (Mat [[5, 5]]), NdArray (Mat [[2, 3]]),
            NdArray (Vec [1]), NdArray (Vec [2]), NdArray (Vec [6]),
            NdArray (Vec [6]), NdArray (Vec [3]), NdArray (Vec [4]),
            NdArray (Vec [2]), NdArray (Vec [1]), NdArray (Vec [6]),
            NdArray (Vec [6]), NdArray (Vec [4]), NdArray (Vec [3])]) \<and>
   length [Vec [1], Vec [2], Vec [6], Vec [6], Vec [3], Vec [4]] = 6 \<and>
   length (colors pprops_init) = 6 \<and>
   colors pprops_init ! 2 = C_TRUEPOS \<and> colors pprops_init ! 3 = C_TRUEPOS \<and>
   [Vec [1], Vec [2], Vec [6], Vec [6], Vec [3], Vec [4]] ! 4 = shift_fst [(2, 3)]"
proof -
  let ?s = "[PyList [(0, 1)], PyList [(5, 5)], PyList [(2, 3)]]"
  let ?x = "[Vec [1], Vec [2], Vec [6], Vec [6], Vec [3], Vec [4]]"
  let ?y = "[Vec [2], Vec [1], Vec [6], Vec [6], Vec [4], Vec [3]]"
  let ?tr = "[PltFigure 5 5, PltSubplot 111, MpPlot ''scatter'' ?x ?y pprops_init]
             @ legend_pass () pprops_init @ [PltShow]"
  have run: "contact_plot_PF00014 () 0 1 2 ?s = Some (?tr, Returned,
           [PyList [(0, 1)], PyList [(5, 5)], PyList [(2, 3)],
            NdArray (Mat [[0, 1]]), NdArray (Mat [[5, 5]]), NdArray (Mat [[2, 3]]),
            NdArray (Vec [1]), NdArray (Vec [2]), NdArray (Vec [6]),
            NdArray (Vec [6]), NdArray (Vec [3]), NdArray (Vec [4]),
            NdArray (Vec [2]), NdArray (Vec [1]), NdArray (Vec [6]),
            NdArray (Vec [6]), NdArray (Vec [4]), NdArray (Vec [3])])"
    by (simp add: contact_plot_PF00014_def np_array_call_def deref_list_def np_array_def
      alloc_def shifted_row_def)
  have h: "deref_list ?s 0 = Some [(0, 1)]" "deref_list ?s 1 = Some [(5, 5)]"
    "deref_list ?s 2 = Some [(2, 3)]"
    by (simp_all add: deref_list_def)
  have m: "MpPlot ''scatter'' ?x ?y pprops_init \<in> set ?tr"
    by simp
  have all: "length ?x = 6 \<and> length ?y = 6 \<and> length (colors pprops_init) = 6 \<and>
         (\<forall>k<3. ?x ! (2 * k) = shift_fst ([[(0, 1)], [(5, 5)], [(2, 3)]] ! k) \<and>
                 ?x ! (2 * k + 1) = shift_snd ([[(0, 1)], [(5, 5)], [(2, 3)]] ! k) \<and>
                 ?y ! (2 * k) = shift_snd ([[(0, 1)], [(5, 5)], [(2, 3)]] ! k) \<and>
                 ?y ! (2 * k + 1) = shift_fst ([[(0, 1)], [(5, 5)], [(2, 3)]] ! k) \<and>
                 colors pprops_init ! (2 * k) = [C_CONTACT, C_TRUEPOS, C_FALSEPOS] ! k \<and>
                 colors pprops_init ! (2 * k + 1) = [C_CONTACT, C_TRUEPOS, C_FALSEPOS] ! k)"
    by (rule six_layers_six_colors [OF run h m])
  have k: "(2::nat) < 3" "(1::nat) < 3"
    by simp_all
  have "?x ! (2 * 2) = shift_fst ([[(0, 1)], [(5, 5)], [(2, 3)]] ! 2) \<and>
      colors pprops_init ! (2 * 1) = [C_CONTACT, C_TRUEPOS, C_FALSEPOS] ! 1 \<and>
      colors pprops_init ! (2 * 1 + 1) = [C_CONTACT, C_TRUEPOS, C_FALSEPOS] ! 1"
    using all k by blast
  with all run show ?thesis
    by simp
qed

subsection \<open>Axes and legend\<close>

text \<open>
  C5. The dictionary built at line 19 has the limits [1, 55] on both axes, the ticks
  0, 10, 20, 30, 40, 50, 55 on both axes and the label 'PF00014 sites' on both axes,
  whatever the arguments are; and every call of \<^verbatim>\<open>mp.plot\<close> or \<^verbatim>\<open>mp.scatter\<close> that
  any call of the function makes receives these values.
\<close>

theorem axes_fixed_for_every_call:
  assumes "contact_plot_PF00014 lp a b c s = Some (tr, r, s')"
    and "e \<in> set tr" "call_pprops e = Some pp"
  shows "xlim pp = [1, 55] \<and> ylim pp = [1, 55] \<and>
         xticks pp = [0, 10, 20, 30, 40, 50, 55] \<and> yticks pp = [0, 10, 20, 30, 40, 50, 55] \<and>
         xlabel pp = ''PF00014 sites'' \<and> ylabel pp = ''PF00014 sites'' \<and>
         xlim pprops_init = [1, 55] \<and> ylim pprops_init = [1, 55] \<and>
         xticks pprops_init = [0, 10, 20, 30, 40, 50, 55] \<and>
         yticks pprops_init = [0, 10, 20, 30, 40, 50, 55] \<and>
         xlabel pprops_init = ''PF00014 sites'' \<and> ylabel pprops_init = ''PF00014 sites''"
proof -
  obtain oc tp fp where
    d: "deref_list s a = Some oc" "deref_list s b = Some tp" "deref_list s c = Some fp"
    using assms(1) by (rule run_cases)
  have "e \<in> set ([PltFigure 5 5, PltSubplot 111,
          MpPlot ''scatter'' (x_layers oc tp fp) (y_layers oc tp fp) pprops_init]
          @ legend_pass lp pprops_init @ [PltShow])"
    using run_trace [OF assms(1) d] assms(2) by auto
  then have "pp = pprops_init \<or> pp = pprops_init\<lparr>colors := [C_CONTACT, C_TRUEPOS, C_FALSEPOS]\<rparr>"
    using assms(3) by (auto simp: legend_pass_def)
  then show ?thesis
    by (auto simp: pprops_init_def)
qed

theorem axes_fixed_for_every_call_witness:
  "(\<exists>tr r s'.
      contact_plot_PF00014 () 0 1 2 [PyList [(0, 1)], PyList [(5, 5)], PyList [(2, 3)]] =
        Some (tr, r, s') \<and>
      MpScatter [[56], [56], [56]] [[52], [48], [44]]
        (pprops_init\<lparr>colors := [C_CONTACT, C_TRUEPOS, C_FALSEPOS]\<rparr>) \<in> set tr) \<and>
   call_pprops (MpScatter [[56], [56], [56]] [[52], [48], [44]]
        (pprops_init\<lparr>colors := [C_CONTACT, C_TRUEPOS, C_FALSEPOS]\<rparr>) :: unit call) =
     Some (pprops_init\<lparr>colors := [C_CONTACT, C_TRUEPOS, C_FALSEPOS]\<rparr>) \<and>
   xlim (pprops_init\<lparr>colors := [C_CONTACT, C_TRUEPOS, C_FALSEPOS]\<rparr>) = [1, 55] \<and>
   ylim (pprops_init\<lparr>colors := [C_CONTACT, C_TRUEPOS, C_FALSEPOS]\<rparr>) = [1, 55] \<and>
   xticks (pprops_init\<lparr>colors := [C_CONTACT, C_TRUEPOS, C_FALSEPOS]\<rparr>) =
     [0, 10, 20, 30, 40, 50, 55] \<and>
   yticks (pprops_init\<lparr>colors := [C_CONTACT, C_TRUEPOS, C_FALSEPOS]\<rparr>) =
     [0, 10, 20, 30, 40, 50, 55] \<and>
   xlabel (pprops_init\<lparr>colors := [C_CONTACT, C_TRUEPOS, C_FALSEPOS]\<rparr>) = ''PF00014 sites'' \<and>
   ylabel (pprops_init\<lparr>colors := [C_CONTACT, C_TRUEPOS, C_FALSEPOS]\<rparr>) = ''PF00014 sites''"
proof -
  let ?pp = "pprops_init\<lparr>colors := [C_CONTACT, C_TRUEPOS, C_FALSEPOS]\<rparr>"
  let ?e = "MpScatter [[56], [56], [56]] [[52], [48], [44]] ?pp :: unit call"
  obtain tr r s' where
    run: "contact_plot_PF00014 () 0 1 2 [PyList [(0, 1)], PyList [(5, 5)], PyList [(2, 3)]] =
            Some (tr, r, s')" and m: "?e \<in> set tr"
    using example_run [of "()"] by simp
  have p: "call_pprops ?e = Some ?pp"
    by simp
  show ?thesis
    using run m p axes_fixed_for_every_call [OF run m p] by blast
qed

text \<open>
  In every call that returns, the calls after \<^verbatim>\<open>mp.plot\<close> are the same, whatever the
  arguments: one \<^verbatim>\<open>mp.scatter\<close> of the three points (56, 52), (56, 48), (56, 44) with
  the colours \<open>C_CONTACT\<close>, \<open>C_TRUEPOS\<close>, \<open>C_FALSEPOS\<close> in this order, and the three
  labels, left aligned and vertically centred at the heights 52, 48 and 44.
\<close>

lemma legend_fixed_when_returned:
  assumes "contact_plot_PF00014 lp a b c s = Some (tr, Returned, s')"
  shows "\<exists>x y. tr =
           [PltFigure 5 5, PltSubplot 111, MpPlot ''scatter'' x y pprops_init,
            MpScatter [[56], [56], [56]] [[52], [48], [44]]
              (pprops_init\<lparr>colors := [C_CONTACT, C_TRUEPOS, C_FALSEPOS]\<rparr>),
            AxText 57 52 ''Other contacts'' ''left'' ''center'' lp,
            AxText 57 48 ''True positives'' ''left'' ''center'' lp,
            AxText 57 44 ''False positives'' ''left'' ''center'' lp,
            PltShow]"
proof -
  obtain oc tp fp where
    d: "deref_list s a = Some oc" "deref_list s b = Some tp" "deref_list s c = Some fp"
    using assms by (rule run_cases)
  show ?thesis
    using run_trace [OF assms d] by (simp add: legend_pass_def)
qed

subsection \<open>Frame and determinism\<close>

text \<open>
  C9. A call on three lists of pairs ends (by returning or by raising), and every object
  that existed before the call is unchanged after it; in particular the three argument
  lists hold the same pairs as before. The arrays and the shifted rows are new objects.
\<close>

theorem inputs_not_mutated:
  assumes "deref_list s a = Some oc" "deref_list s b = Some tp" "deref_list s c = Some fp"
  shows "\<exists>tr r s'.
           contact_plot_PF00014 lp a b c s = Some (tr, r, s') \<and>
           take (length s) s' = s \<and>
           deref_list s' a = Some oc \<and> deref_list s' b = Some tp \<and> deref_list s' c = Some fp"
proof -
  obtain tr r s' where run: "contact_plot_PF00014 lp a b c s = Some (tr, r, s')"
  proof (cases "oc = [] \<or> tp = [] \<or> fp = []")
    case True
    then show ?thesis
      using run_raises [OF assms True, of lp] that by blast
  next
    case False
    then show ?thesis
      using run_returns [OF assms, of lp] that by blast
  qed
  have frame: "take (length s) s' = s"
    using run by (rule run_frame)
  have keep: "deref_list s' p = Some ps" if "deref_list s p = Some ps" for p ps
  proof -
    from that have p: "p < length s"
      by (simp add: deref_list_def split: if_splits)
    then have "s' ! p = s ! p" "p < length s'"
      using frame by (metis nth_take, metis length_take min_less_iff_conj)
    then show ?thesis
      using that p by (simp add: deref_list_def)
  qed
  show ?thesis
    using run frame keep [OF assms(1)] keep [OF assms(2)] keep [OF assms(3)] by blast
qed

theorem inputs_not_mutated_witness:
  "deref_list [PyList [(0, 1)], PyList [], PyList [(2, 3)]] 0 = Some [(0, 1)] \<and>
   deref_list [PyList [(0, 1)], PyList [], PyList [(2, 3)]] 1 = Some [] \<and>
   deref_list [PyList [(0, 1)], PyList [], PyList [(2, 3)]] 2 = Some [(2, 3)] \<and>
   (\<exists>tr r s'.
      contact_plot_PF00014 () 0 1 2 [PyList [(0, 1)], PyList [], PyList [(2, 3)]] =
        Some (tr, r, s') \<and>
      take (length [PyList [(0, 1)], PyList [], PyList [(2, 3)]]) s' =
        [PyList [(0, 1)], PyList [], PyList [(2, 3)]] \<and>
      deref_list s' 0 = Some [(0, 1)] \<and> deref_list s' 1 = Some [] \<and>
      deref_list s' 2 = Some [(2, 3)])"
proof -
  let ?s = "[PyList [(0, 1)], PyList [], PyList [(2, 3)]]"
  have h: "deref_list ?s 0 = Some [(0, 1)]" "deref_list ?s 1 = Some []"
    "deref_list ?s 2 = Some [(2, 3)]"
    by (simp_all add: deref_list_def)
  show ?thesis
    using h inputs_not_mutated [OF h, of "()"] by simp
qed

text \<open>
  C10. Two calls whose three argument lists are element for element equal make the same
  calls to the plotting layer with the same arguments and end the same way, wherever the
  lists are stored and whatever else the two stores hold.
\<close>

theorem plotted_data_deterministic:
  assumes "deref_list s a = Some oc" "deref_list s b = Some tp" "deref_list s c = Some fp"
    and "deref_list t a' = Some oc" "deref_list t b' = Some tp" "deref_list t c' = Some fp"
  shows "\<exists>tr r s' t'.
           contact_plot_PF00014 lp a b c s = Some (tr, r, s') \<and>
           contact_plot_PF00014 lp a' b' c' t = Some (tr, r, t')"
proof (cases "oc = [] \<or> tp = [] \<or> fp = []")
  case True
  then show ?thesis
    using run_raises [OF assms(1-3) True, of lp] run_raises [OF assms(4-6) True, of lp] by blast
next
  case False
  then show ?thesis
    using run_returns [OF assms(1-3), of lp] run_returns [OF assms(4-6), of lp] by blast
qed

theorem plotted_data_deterministic_witness:
  "deref_list [PyList [(0, 1)], PyList [(5, 5)], PyList [(2, 3)]] 0 = Some [(0, 1)] \<and>
   deref_list [PyList [(0, 1)], PyList [(5, 5)], PyList [(2, 3)]] 1 = Some [(5, 5)] \<and>
   deref_list [PyList [(0, 1)], PyList [(5, 5)], PyList [(2, 3)]] 2 = Some [(2, 3)] \<and>
   deref_list [PyList [(2, 3)], NdArray (Vec [7]), PyList [(5, 5)], PyList [(0, 1)]] 3 =
     Some [(0, 1)] \<and>
   deref_list [PyList [(2, 3)], NdArray (Vec [7]), PyList [(5, 5)], PyList [(0, 1)]] 2 =
     Some [(5, 5)] \<and>
   deref_list [PyList [(2, 3)], NdArray (Vec [7]), PyList [(5, 5)], PyList [(0, 1)]] 0 =
     Some [(2, 3)] \<and>
   (\<exists>tr r s' t'.
      contact_plot_PF00014 () 0 1 2 [PyList [(0, 1)], PyList [(5, 5)], PyList [(2, 3)]] =
        Some (tr, r, s') \<and>
      contact_plot_PF00014 () 3 2 0
          [PyList [(2, 3)], NdArray (Vec [7]), PyList [(5, 5)], PyList [(0, 1)]] =
        Some (tr, r, t'))"
proof -
  let ?s = "[PyList [(0, 1)], PyList [(5, 5)], PyList [(2, 3)]]"
  let ?t = "[PyList [(2, 3)], NdArray (Vec [7]), PyList [(5, 5)], PyList [(0, 1)]]"
  have h: "deref_list ?s 0 = Some [(0, 1)]" "deref_list ?s 1 = Some [(5, 5)]"
    "deref_list ?s 2 = Some [(2, 3)]"
    by (simp_all add: deref_list_def)
  have g: "deref_list ?t 3 = Some [(0, 1)]" "deref_list ?t 2 = Some [(5, 5)]"
    "deref_list ?t 0 = Some [(2, 3)]"
    by (simp_all add: deref_list_def)
  show ?thesis
    using h g plotted_data_deterministic [OF h g, of "()"] by simp
qed

end
